theory Spec2Isabelle
  imports Main "HOL-Library.Multiset"
begin

section \<open>Values, strings and formatting\<close>

text \<open>
  The backlog is a Python \<^verbatim>\<open>List[Dict]\<close> handed in by the caller. An item is a
  dictionary from key strings to values; the values that the f-strings of
  \<^verbatim>\<open>planning_node\<close> format are strings, integers, booleans or \<^verbatim>\<open>None\<close>.
  Strings are byte lists: a character outside ASCII is written as its UTF-8 bytes.
\<close>

datatype pyval = PStr string | PInt int | PBool bool | PNone

type_synonym item = "string \<rightharpoonup> pyval"

text \<open>Decimal rendering of \<^verbatim>\<open>len(...)\<close> inside an f-string.\<close>

fun str_nat :: "nat \<Rightarrow> string" where
  "str_nat n =
     (if n < 10 then [char_of (48 + n)]
      else str_nat (n div 10) @ [char_of (48 + n mod 10)])"

declare str_nat.simps [simp del]

definition str_int :: "int \<Rightarrow> string" where
  "str_int i = (if i < 0 then ''-'' @ str_nat (nat (- i)) else str_nat (nat i))"

text \<open>What \<^verbatim>\<open>f"{v}"\<close> yields for a value \<^verbatim>\<open>v\<close>.\<close>

fun format :: "pyval \<Rightarrow> string" where
  "format (PStr s) = s"
| "format (PInt i) = str_int i"
| "format (PBool b) = (if b then ''True'' else ''False'')"
| "format PNone = ''None''"

definition nl :: string where
  "nl = [CHR 0x0A]"

definition emoji_dart :: string where
  "emoji_dart = [CHR 0xF0, CHR 0x9F, CHR 0x8E, CHR 0xAF]"

definition emoji_clipboard :: string where
  "emoji_clipboard = [CHR 0xF0, CHR 0x9F, CHR 0x93, CHR 0x8B]"

definition emoji_check :: string where
  "emoji_check = [CHR 0xE2, CHR 0x9C, CHR 0x85]"

definition emoji_thinking :: string where
  "emoji_thinking = [CHR 0xF0, CHR 0x9F, CHR 0xA4, CHR 0x94]"

definition emoji_hammer :: string where
  "emoji_hammer = [CHR 0xF0, CHR 0x9F, CHR 0x94, CHR 0xA8]"

definition emoji_bust :: string where
  "emoji_bust = [CHR 0xF0, CHR 0x9F, CHR 0x91, CHR 0xA4]"

definition tick :: string where
  "tick = [CHR 0xE2, CHR 0x9C, CHR 0x93]"

definition emoji_rocket :: string where
  "emoji_rocket = [CHR 0xF0, CHR 0x9F, CHR 0x9A, CHR 0x80]"

definition emoji_sparkles :: string where
  "emoji_sparkles = [CHR 0xE2, CHR 0x9C, CHR 0xA8]"

definition bullet :: string where
  "bullet = [CHR 0xE2, CHR 0x80, CHR 0xA2]"

definition emoji_cross :: string where
  "emoji_cross = [CHR 0xE2, CHR 0x9D, CHR 0x8C]"

definition emoji_warning :: string where
  "emoji_warning = [CHR 0xE2, CHR 0x9A, CHR 0xA0, CHR 0xEF, CHR 0xB8, CHR 0x8F]"

definition emoji_magnifier :: string where
  "emoji_magnifier = [CHR 0xF0, CHR 0x9F, CHR 0x94, CHR 0x8D]"

definition emoji_globe :: string where
  "emoji_globe = [CHR 0xF0, CHR 0x9F, CHR 0x8C, CHR 0x90]"

definition emoji_point :: string where
  "emoji_point = [CHR 0xF0, CHR 0x9F, CHR 0x91, CHR 0x89]"

definition emoji_bulb :: string where
  "emoji_bulb = [CHR 0xF0, CHR 0x9F, CHR 0x92, CHR 0xA1]"

definition emoji_party :: string where
  "emoji_party = [CHR 0xF0, CHR 0x9F, CHR 0x8E, CHR 0x89]"

definition emoji_robot :: string where
  "emoji_robot = [CHR 0xF0, CHR 0x9F, CHR 0xA4, CHR 0x96]"

section \<open>The iteration state\<close>

text \<open>
  \<^verbatim>\<open>IterationState\<close> is a TypedDict with the keys phase, backlog, plan,
  completed_tasks and messages. The phase is one of four literals. The task and plan
  dictionaries are built by \<^verbatim>\<open>planning_node\<close> from literals with fixed keys, so they
  are records; the plan of the initial state is the empty dictionary, \<open>None\<close> here,
  and reading \<^verbatim>\<open>state["plan"]["tasks"]\<close> from it raises \<^verbatim>\<open>KeyError\<close>.
\<close>

datatype phase = Planning | Approval | Building | Complete

record task =
  task_id :: string
  task_title :: string
  assignee :: string

record plan_dict =
  tasks :: "task list"
  total_tasks :: nat

record IterationState =
  phase :: phase
  backlog :: "item list"
  plan :: "plan_dict option"
  completed_tasks :: "string list"
  messages :: "string list"

text \<open>
  A node returns a dictionary holding only the keys it sets. The graph writes those
  keys over the state and leaves the others as they were.
\<close>

record update =
  upd_phase :: "phase option"
  upd_plan :: "plan_dict option"
  upd_completed_tasks :: "string list option"
  upd_messages :: "string list option"

definition apply_update :: "IterationState \<Rightarrow> update \<Rightarrow> IterationState" where
  "apply_update st u =
     \<lparr>phase = (case upd_phase u of None \<Rightarrow> phase st | Some p \<Rightarrow> p),
      backlog = backlog st,
      plan = (case upd_plan u of None \<Rightarrow> plan st | Some p \<Rightarrow> Some p),
      completed_tasks =
        (case upd_completed_tasks u of None \<Rightarrow> completed_tasks st | Some c \<Rightarrow> c),
      messages = (case upd_messages u of None \<Rightarrow> messages st | Some m \<Rightarrow> m)\<rparr>"

section \<open>Exceptions and the outside world\<close>

datatype exn =
    KeyError string
  | AttributeError
  | RuntimeError
  | ClientConnectorError
  | ServerTimeoutError
  | GraphRecursionError
  | ValueError
  | ModuleNotFoundError string
  | SystemExit nat

datatype request =
    POST string "(string \<times> string) list"
  | GET string

text \<open>
  An HTTP call either comes back with a response (its status code) or raises. A
  response with an error status does not raise: the client is never asked to check it.
\<close>

datatype outcome = Response nat | Raises exn

text \<open>
  The world records what the program has done: the lines printed (one entry for each
  call of \<^verbatim>\<open>print\<close>, without the newline that ends it), the requests issued
  and the seconds slept. Printing and sleeping do not raise. The environment is what the program reads: the process
  environment after \<^verbatim>\<open>load_dotenv()\<close>, the behaviour of the dashboard (which may
  depend on how many requests came before and on the request itself) and the modules
  that can be imported.
\<close>

record world =
  stdout :: "string list"
  requests :: "request list"
  slept :: nat

record env =
  getenv :: "string \<rightharpoonup> string"
  dashboard :: "nat \<Rightarrow> request \<Rightarrow> outcome"
  installed :: "string \<Rightarrow> bool"

definition print :: "string \<Rightarrow> world \<Rightarrow> world" where
  "print s w = w\<lparr>stdout := stdout w @ [s]\<rparr>"

definition sleep :: "nat \<Rightarrow> world \<Rightarrow> world" where
  "sleep n w = w\<lparr>slept := slept w + n\<rparr>"

definition http :: "env \<Rightarrow> request \<Rightarrow> world \<Rightarrow> outcome \<times> world" where
  "http e r w = (dashboard e (length (requests w)) r, w\<lparr>requests := requests w @ [r]\<rparr>)"

definition COORDINATOR_URL :: "env \<Rightarrow> string" where
  "COORDINATOR_URL e =
     (case getenv e ''COORDINATOR_URL'' of
        None \<Rightarrow> ''http://localhost:8787''
      | Some u \<Rightarrow> u)"

section \<open>The agent\<close>

text \<open>
  An agent holds its name, its role and its HTTP session, which is \<^verbatim>\<open>None\<close> until
  \<^verbatim>\<open>setup\<close> opens one. Posting through a missing session raises
  \<^verbatim>\<open>AttributeError\<close>, through a closed one \<^verbatim>\<open>RuntimeError\<close>.
\<close>

datatype session = SessionOpen | SessionClosed

record Agent =
  name :: string
  role :: string
  session :: "session option"

definition Agent_init :: "string \<Rightarrow> string \<Rightarrow> Agent" where
  "Agent_init n r = \<lparr>name = n, role = r, session = None\<rparr>"

definition session_post :: "env \<Rightarrow> Agent \<Rightarrow> request \<Rightarrow> world \<Rightarrow> outcome \<times> world" where
  "session_post e a r w =
     (case session a of
        None \<Rightarrow> (Raises AttributeError, w)
      | Some SessionClosed \<Rightarrow> (Raises RuntimeError, w)
      | Some SessionOpen \<Rightarrow> http e r w)"

text \<open>
  \<^verbatim>\<open>Agent.setup\<close> opens the session, which does not raise, and registers the agent
  inside \<^verbatim>\<open>try\<close>; the bare \<^verbatim>\<open>except:\<close> answers whatever the call raises with a
  warning line. The methods of the class carry its name in front here.
\<close>

definition Agent_setup :: "env \<Rightarrow> Agent \<Rightarrow> world \<Rightarrow> (exn + Agent) \<times> world" where
  "Agent_setup e a w =
     (let a' = a\<lparr>session := Some SessionOpen\<rparr> in
      case session_post e a'
             (POST (COORDINATOR_URL e @ ''/api/agent/register'')
                [(''id'', name a'), (''name'', name a'), (''role'', role a')]) w of
        (Response c, w1) \<Rightarrow> (Inr a', w1)
      | (Raises x, w1) \<Rightarrow>
          (Inr a', print (''Warning: Could not register '' @ name a' @ '' with dashboard'') w1))"

text \<open>
  \<^verbatim>\<open>Agent.update_dashboard\<close> posts the status and then the activity inside one
  \<^verbatim>\<open>try\<close>: when the first call raises, the second is not made, and the bare
  \<^verbatim>\<open>except:\<close> passes.
\<close>

definition Agent_update_dashboard ::
  "env \<Rightarrow> Agent \<Rightarrow> string \<Rightarrow> string \<Rightarrow> world \<Rightarrow> (exn + unit) \<times> world" where
  "Agent_update_dashboard e a status message w =
     (case session_post e a
             (POST (COORDINATOR_URL e @ ''/api/agent/update'')
                [(''agentId'', name a), (''status'', status), (''activity'', message)]) w of
        (Raises x, w1) \<Rightarrow> (Inr (), w1)
      | (Response c, w1) \<Rightarrow>
          (case session_post e a
                  (POST (COORDINATOR_URL e @ ''/api/activity/post'')
                     [(''agent'', name a), (''message'', message)]) w1 of
             (Raises x, w2) \<Rightarrow> (Inr (), w2)
           | (Response c', w2) \<Rightarrow> (Inr (), w2)))"

text \<open>\<^verbatim>\<open>Agent.cleanup\<close> closes the session when there is one.\<close>

definition Agent_cleanup :: "Agent \<Rightarrow> Agent" where
  "Agent_cleanup a =
     (case session a of
        None \<Rightarrow> a
      | Some s \<Rightarrow> a\<lparr>session := Some SessionClosed\<rparr>)"

section \<open>The workflow nodes\<close>

text \<open>
  The body of the loop of \<^verbatim>\<open>planning_node\<close>: \<^verbatim>\<open>item["id"]\<close> is read first, then
  the three dictionaries are built, which reads \<^verbatim>\<open>item['title']\<close>. A missing key
  raises \<^verbatim>\<open>KeyError\<close>.
\<close>

definition item_tasks :: "item \<Rightarrow> exn + task list" where
  "item_tasks item =
     (case item ''id'' of
        None \<Rightarrow> Inl (KeyError ''id'')
      | Some feature_id \<Rightarrow>
          (case item ''title'' of
             None \<Rightarrow> Inl (KeyError ''title'')
           | Some title \<Rightarrow>
               Inr [\<lparr>task_id = format feature_id @ ''-backend'',
                      task_title = ''Backend: '' @ format title,
                      assignee = ''backend''\<rparr>,
                    \<lparr>task_id = format feature_id @ ''-frontend'',
                      task_title = ''Frontend: '' @ format title,
                      assignee = ''frontend''\<rparr>,
                    \<lparr>task_id = format feature_id @ ''-tests'',
                      task_title = ''Tests: '' @ format title,
                      assignee = ''qa''\<rparr>]))"

text \<open>The loop itself: \<^verbatim>\<open>tasks.extend(...)\<close> for each item, in backlog order.\<close>

fun plan_loop :: "item list \<Rightarrow> task list \<Rightarrow> exn + task list" where
  "plan_loop [] acc = Inr acc"
| "plan_loop (item # rest) acc =
     (case item_tasks item of
        Inl x \<Rightarrow> Inl x
      | Inr ts \<Rightarrow> plan_loop rest (acc @ ts))"

definition planning_node :: "IterationState \<Rightarrow> world \<Rightarrow> (exn + update) \<times> world" where
  "planning_node st w =
     (let w0 = print (nl @ emoji_dart @ '' PLANNING PHASE'') w in
      case plan_loop (backlog st) [] of
        Inl x \<Rightarrow> (Inl x, w0)
      | Inr ts \<Rightarrow>
          (let p = \<lparr>tasks = ts, total_tasks = length ts\<rparr>;
               w1 = print (emoji_clipboard @ '' Created plan with ''
                             @ str_nat (length ts) @ '' tasks'') w0
           in (Inr \<lparr>upd_phase = Some Approval,
                     upd_plan = Some p,
                     upd_completed_tasks = None,
                     upd_messages =
                       Some (messages st
                             @ [''Created plan with '' @ str_nat (length ts) @ '' tasks''])\<rparr>,
               w1)))"

definition approval_node :: "IterationState \<Rightarrow> world \<Rightarrow> (exn + update) \<times> world" where
  "approval_node st w =
     (let w1 = print (nl @ emoji_check @ '' APPROVAL PHASE'') w;
          w2 = print (emoji_thinking
                      @ '' Waiting for approval... (auto-approving in 3 seconds)'') w1;
          w3 = sleep 3 w2;
          w4 = print (emoji_check @ '' Plan approved!'') w3
      in (Inr \<lparr>upd_phase = Some Building,
                upd_plan = None,
                upd_completed_tasks = None,
                upd_messages = Some (messages st @ [''Plan approved by product owner''])\<rparr>,
          w4))"

text \<open>\<^verbatim>\<open>for agent in agents.values(): await agent.setup()\<close>, in insertion order.\<close>

fun setup_all ::
  "env \<Rightarrow> (string \<times> Agent) list \<Rightarrow> world \<Rightarrow> (exn + (string \<times> Agent) list) \<times> world" where
  "setup_all e [] w = (Inr [], w)"
| "setup_all e ((k, a) # rest) w =
     (case Agent_setup e a w of
        (Inl x, w1) \<Rightarrow> (Inl x, w1)
      | (Inr a', w1) \<Rightarrow>
          (case setup_all e rest w1 of
             (Inl x, w2) \<Rightarrow> (Inl x, w2)
           | (Inr rest', w2) \<Rightarrow> (Inr ((k, a') # rest'), w2)))"

text \<open>
  The inner loop of \<^verbatim>\<open>building_node\<close> over the tasks of one type: report busy, sleep
  one second, print, append the task's id to \<^verbatim>\<open>completed\<close>, report idle.
\<close>

fun work ::
  "env \<Rightarrow> Agent \<Rightarrow> task list \<Rightarrow> string list \<Rightarrow> world \<Rightarrow> (exn + string list) \<times> world" where
  "work e a [] completed w = (Inr completed, w)"
| "work e a (t # ts) completed w =
     (case Agent_update_dashboard e a ''busy'' (''Working on: '' @ task_title t) w of
        (Inl x, w1) \<Rightarrow> (Inl x, w1)
      | (Inr u, w1) \<Rightarrow>
          (let w2 = print (''  '' @ tick @ '' Completed: '' @ task_title t) (sleep 1 w1);
               completed' = completed @ [task_id t]
           in case Agent_update_dashboard e a ''idle'' (''Completed: '' @ task_title t) w2 of
                (Inl x, w3) \<Rightarrow> (Inl x, w3)
              | (Inr u', w3) \<Rightarrow> work e a ts completed' w3))"

text \<open>
  The outer loop over the task types: the tasks of the type are filtered out of the
  plan in plan order, and a type without tasks is skipped.
\<close>

fun build ::
  "env \<Rightarrow> (string \<times> Agent) list \<Rightarrow> task list \<Rightarrow> string list \<Rightarrow> string list \<Rightarrow> world
     \<Rightarrow> (exn + string list) \<times> world" where
  "build e agents ts [] completed w = (Inr completed, w)"
| "build e agents ts (task_type # types) completed w =
     (let type_tasks = filter (\<lambda>t. assignee t = task_type) ts in
      if type_tasks \<noteq> [] then
        (case map_of agents task_type of
           None \<Rightarrow> (Inl (KeyError task_type), w)
         | Some agent \<Rightarrow>
             (case work e agent type_tasks completed
                     (print (nl @ emoji_bust @ '' '' @ name agent @ '' working on ''
                             @ str_nat (length type_tasks) @ '' tasks...'') w) of
                (Inl x, w1) \<Rightarrow> (Inl x, w1)
              | (Inr completed', w1) \<Rightarrow> build e agents ts types completed' w1))
      else build e agents ts types completed w)"

text \<open>
  \<^verbatim>\<open>building_node\<close> sets the three agents up before it reads the plan. The
  cleanup loop closes the sessions of agents that are local to the call.
\<close>

definition building_node :: "env \<Rightarrow> IterationState \<Rightarrow> world \<Rightarrow> (exn + update) \<times> world" where
  "building_node e st w =
     (let w0 = print (nl @ emoji_hammer @ '' BUILDING PHASE'') w;
          agents = [(''backend'', Agent_init ''Backend SWE'' ''engineer''),
                    (''frontend'', Agent_init ''Frontend SWE'' ''engineer''),
                    (''qa'', Agent_init ''QA Engineer'' ''tester'')]
      in case setup_all e agents w0 of
           (Inl x, w1) \<Rightarrow> (Inl x, w1)
         | (Inr agents', w1) \<Rightarrow>
             (case plan st of
                None \<Rightarrow> (Inl (KeyError ''tasks''), w1)
              | Some p \<Rightarrow>
                  (case build e agents' (tasks p) [''backend'', ''frontend'', ''qa''] [] w1 of
                     (Inl x, w2) \<Rightarrow> (Inl x, w2)
                   | (Inr completed, w2) \<Rightarrow>
                       (let closed = map (\<lambda>(k, a). (k, Agent_cleanup a)) agents' in
                        (Inr \<lparr>upd_phase = Some Complete,
                               upd_plan = None,
                               upd_completed_tasks = Some completed,
                               upd_messages =
                                 Some (messages st
                                       @ [''Completed '' @ str_nat (length completed)
                                          @ '' tasks''])\<rparr>,
                         w2)))))"

section \<open>The workflow graph\<close>

text \<open>
  \<^verbatim>\<open>create_workflow\<close> builds a graph with three named nodes, an entry point and
  three edges, the last one to \<^verbatim>\<open>END\<close>. The graph library is not part of the
  program; what it does with such a graph is this: a run starts at the entry point,
  calls the node, writes its update over the state and follows the node's edge, until
  \<^verbatim>\<open>END\<close>, and a run of more than 25 steps is stopped with an error.
\<close>

type_synonym node_fn = "env \<Rightarrow> IterationState \<Rightarrow> world \<Rightarrow> (exn + update) \<times> world"

record workflow =
  nodes :: "(string \<times> node_fn) list"
  entry_point :: "string option"
  edges :: "(string \<times> string) list"

definition END :: string where
  "END = ''__end__''"

definition StateGraph :: workflow where
  "StateGraph = \<lparr>nodes = [], entry_point = None, edges = []\<rparr>"

definition add_node :: "string \<Rightarrow> node_fn \<Rightarrow> workflow \<Rightarrow> workflow" where
  "add_node n f g = g\<lparr>nodes := nodes g @ [(n, f)]\<rparr>"

definition set_entry_point :: "string \<Rightarrow> workflow \<Rightarrow> workflow" where
  "set_entry_point n g = g\<lparr>entry_point := Some n\<rparr>"

definition add_edge :: "string \<Rightarrow> string \<Rightarrow> workflow \<Rightarrow> workflow" where
  "add_edge a b g = g\<lparr>edges := edges g @ [(a, b)]\<rparr>"

definition create_workflow :: workflow where
  "create_workflow =
     add_edge ''building'' END
       (add_edge ''approval'' ''building''
         (add_edge ''planning'' ''approval''
           (set_entry_point ''planning''
             (add_node ''building'' building_node
               (add_node ''approval'' (\<lambda>e. approval_node)
                 (add_node ''planning'' (\<lambda>e. planning_node) StateGraph))))))"

definition recursion_limit :: nat where
  "recursion_limit = 25"

text \<open>
  The run from a node on, with the steps that are left. It yields, for every node that
  ran, the node's name and the state after it, in order; an exception of a node ends
  the run.
\<close>

fun run_from ::
  "nat \<Rightarrow> env \<Rightarrow> workflow \<Rightarrow> string \<Rightarrow> IterationState \<Rightarrow> world
     \<Rightarrow> (exn + (string \<times> IterationState) list) \<times> world" where
  "run_from 0 e g n st w =
     (if n = END then (Inr [], w) else (Inl GraphRecursionError, w))"
| "run_from (Suc k) e g n st w =
     (if n = END then (Inr [], w)
      else case map_of (nodes g) n of
             None \<Rightarrow> (Inl (KeyError n), w)
           | Some f \<Rightarrow>
               (case f e st w of
                  (Inl x, w1) \<Rightarrow> (Inl x, w1)
                | (Inr u, w1) \<Rightarrow>
                    (let st' = apply_update st u in
                     case map_of (edges g) n of
                       None \<Rightarrow> (Inr [(n, st')], w1)
                     | Some n' \<Rightarrow>
                         (case run_from k e g n' st' w1 of
                            (Inl x, w2) \<Rightarrow> (Inl x, w2)
                          | (Inr tr, w2) \<Rightarrow> (Inr ((n, st') # tr), w2)))))"

definition astream ::
  "env \<Rightarrow> workflow \<Rightarrow> IterationState \<Rightarrow> world
     \<Rightarrow> (exn + (string \<times> IterationState) list) \<times> world" where
  "astream e g st w =
     (case entry_point g of
        None \<Rightarrow> (Inl ValueError, w)
      | Some n \<Rightarrow> run_from recursion_limit e g n st w)"

text \<open>\<^verbatim>\<open>ainvoke\<close> returns the state after the last node.\<close>

definition ainvoke ::
  "env \<Rightarrow> workflow \<Rightarrow> IterationState \<Rightarrow> world \<Rightarrow> (exn + IterationState) \<times> world" where
  "ainvoke e g st w =
     (case astream e g st w of
        (Inl x, w1) \<Rightarrow> (Inl x, w1)
      | (Inr tr, w1) \<Rightarrow> (Inr (if tr = [] then st else snd (last tr)), w1))"

section \<open>The runner\<close>

definition initial_state :: "item list \<Rightarrow> IterationState" where
  "initial_state backlog_items =
     \<lparr>phase = Planning,
      backlog = backlog_items,
      plan = None,
      completed_tasks = [],
      messages = []\<rparr>"

definition run_iteration :: "env \<Rightarrow> item list \<Rightarrow> world \<Rightarrow> (exn + unit) \<times> world" where
  "run_iteration e backlog_items w =
     (let w0 = print (emoji_rocket @ '' Starting iteration...'') w in
      case ainvoke e create_workflow (initial_state backlog_items) w0 of
        (Inl x, w1) \<Rightarrow> (Inl x, w1)
      | (Inr final_state, w1) \<Rightarrow>
          (let w2 = print (nl @ emoji_sparkles @ '' ITERATION COMPLETE!'') w1;
               w3 = print (''Completed tasks: ''
                           @ str_nat (length (completed_tasks final_state))) w2;
               w4 = print (nl @ ''Iteration log:'') w3
           in (Inr (),
               foldl (\<lambda>w' msg. print (''  '' @ bullet @ '' '' @ msg) w') w4
                 (messages final_state))))"

text \<open>The backlog that \<^verbatim>\<open>main()\<close> runs.\<close>

definition example_backlog :: "item list" where
  "example_backlog =
     [[''id'' \<mapsto> PStr ''FEAT-001'',
       ''title'' \<mapsto> PStr ''User Login API'',
       ''description'' \<mapsto> PStr ''Create login endpoint with JWT''],
      [''id'' \<mapsto> PStr ''FEAT-002'',
       ''title'' \<mapsto> PStr ''Dashboard UI'',
       ''description'' \<mapsto> PStr ''Create main dashboard page'']]"

section \<open>The quick-start program\<close>

text \<open>
  The program imports langgraph, aiohttp and dotenv in this order inside \<^verbatim>\<open>try\<close>.
  The first module that is not installed raises \<^verbatim>\<open>ModuleNotFoundError\<close>, a subclass
  of \<^verbatim>\<open>ImportError\<close>, which the handler answers with two lines and
  \<^verbatim>\<open>sys.exit(1)\<close>.
\<close>

definition import_check :: "env \<Rightarrow> exn + unit" where
  "import_check e =
     (if \<not> installed e ''langgraph'' then Inl (ModuleNotFoundError ''langgraph'')
      else if \<not> installed e ''aiohttp'' then Inl (ModuleNotFoundError ''aiohttp'')
      else if \<not> installed e ''dotenv'' then Inl (ModuleNotFoundError ''dotenv'')
      else Inr ())"

fun is_ImportError :: "exn \<Rightarrow> bool" where
  "is_ImportError (ModuleNotFoundError m) = True"
| "is_ImportError x = False"

definition test_backlog :: "item list" where
  "test_backlog =
     [[''id'' \<mapsto> PStr ''TEST-001'',
       ''title'' \<mapsto> PStr ''Hello World API'',
       ''description'' \<mapsto> PStr ''Simple test endpoint'']]"

definition test_setup :: "env \<Rightarrow> world \<Rightarrow> (exn + unit) \<times> world" where
  "test_setup e w =
     (let w0 = print (emoji_magnifier @ '' Checking your setup...'' @ nl) w;
          unset = (case getenv e ''COORDINATOR_URL'' of None \<Rightarrow> True | Some u \<Rightarrow> u = []);
          coordinator_url =
            (case getenv e ''COORDINATOR_URL'' of
               None \<Rightarrow> ''http://localhost:8787''
             | Some u \<Rightarrow> if u = [] then ''http://localhost:8787'' else u);
          w1 = (if unset
                then print ''   Using default: http://localhost:8787''
                       (print (emoji_warning @ ''  COORDINATOR_URL not set in .env file'') w0)
                else print (emoji_check @ '' Coordinator URL: '' @ coordinator_url) w0);
          w2 = print (nl @ emoji_globe @ '' Testing dashboard connection...'') w1;
          (dashboard_available, w3) =
            (case http e (GET (coordinator_url @ ''/dashboard'')) w2 of
               (Response c, w') \<Rightarrow>
                 (if c = 200
                  then (True,
                        print (''   View at: '' @ coordinator_url @ ''/dashboard'')
                          (print (emoji_check @ '' Dashboard is running!'') w'))
                  else (False, w'))
             | (Raises x, w') \<Rightarrow>
                 (False,
                  print (emoji_warning @ ''  Dashboard not accessible (that's OK for testing)'')
                    w'));
          w4 = print (replicate 50 (CHR ''-''))
                 (print (nl @ emoji_rocket @ '' Running test workflow...'') w3)
      in case run_iteration e test_backlog w4 of
           (Inl x, w5) \<Rightarrow> (Inl x, w5)
         | (Inr u, w5) \<Rightarrow>
             (let w6 = print (emoji_check @ '' Setup test complete!'')
                         (print (nl @ replicate 50 (CHR ''='')) w5);
                  w7 = (if dashboard_available
                        then print ''   You should see agent activity there!''
                               (print (nl @ emoji_point @ '' Check your dashboard at: ''
                                       @ coordinator_url @ ''/dashboard'') w6)
                        else print ''   3. Run this test again''
                               (print ''   2. Update COORDINATOR_URL in your .env file''
                                 (print ''   1. Deploy the Cloudflare Worker first''
                                   (print (nl @ emoji_bulb @ '' To see the web dashboard:'')
                                      w6))))
              in (Inr (), print (nl @ emoji_party @ '' Your agent swarm is working!'') w7)))"

text \<open>The program run as a script.\<close>

definition quickstart :: "env \<Rightarrow> world \<Rightarrow> (exn + unit) \<times> world" where
  "quickstart e w =
     (case import_check e of
        Inl x \<Rightarrow>
          (if is_ImportError x
           then (Inl (SystemExit 1),
                 print ''Please run: pip install langgraph aiohttp python-dotenv''
                   (print (emoji_cross @ '' Missing required packages!'') w))
           else (Inl x, w))
      | Inr u \<Rightarrow>
          test_setup e
            (print (replicate 50 (CHR ''=''))
              (print (emoji_robot @ '' Agent Swarm Quick Start'') w)))"

text \<open>
  The exit status of the process: 0 when the program runs to its end, the argument of
  \<^verbatim>\<open>sys.exit\<close>, and 1 for an exception nobody caught.
\<close>

fun exit_status :: "exn + unit \<Rightarrow> nat" where
  "exit_status (Inr u) = 0"
| "exit_status (Inl (SystemExit n)) = n"
| "exit_status (Inl x) = 1"

section \<open>Backlogs whose items carry an id and a title\<close>

definition has_id_title :: "item \<Rightarrow> bool" where
  "has_id_title item \<longleftrightarrow> item ''id'' \<noteq> None \<and> item ''title'' \<noteq> None"

definition wf_backlog :: "item list \<Rightarrow> bool" where
  "wf_backlog b = list_all has_id_title b"

text \<open>The tasks of one item, and the empty list where the loop body raises.\<close>

definition the_tasks :: "item \<Rightarrow> task list" where
  "the_tasks item = (case item_tasks item of Inl x \<Rightarrow> [] | Inr ts \<Rightarrow> ts)"

text \<open>The identifiers of the tasks of one type, in plan order.\<close>

definition ids_of_type :: "string \<Rightarrow> task list \<Rightarrow> string list" where
  "ids_of_type ty ts = map task_id (filter (\<lambda>t. assignee t = ty) ts)"

text \<open>
  The order in which \<^verbatim>\<open>building_node\<close> completes the tasks of a plan: the backend
  tasks, then the frontend tasks, then the qa tasks.
\<close>

definition grouped :: "task list \<Rightarrow> string list" where
  "grouped ts = ids_of_type ''backend'' ts @ ids_of_type ''frontend'' ts @ ids_of_type ''qa'' ts"

text \<open>The states of a run on backlog \<open>b\<close> after each of the three nodes.\<close>

definition after_planning :: "item list \<Rightarrow> IterationState" where
  "after_planning b =
     \<lparr>phase = Approval, backlog = b,
      plan = Some \<lparr>tasks = concat (map the_tasks b),
                   total_tasks = length (concat (map the_tasks b))\<rparr>,
      completed_tasks = [],
      messages = [''Created plan with '' @ str_nat (length (concat (map the_tasks b)))
                  @ '' tasks'']\<rparr>"

definition after_approval :: "item list \<Rightarrow> IterationState" where
  "after_approval b =
     (after_planning b)\<lparr>phase := Building,
        messages := messages (after_planning b) @ [''Plan approved by product owner'']\<rparr>"

definition after_building :: "item list \<Rightarrow> IterationState" where
  "after_building b =
     (after_approval b)\<lparr>phase := Complete,
        completed_tasks := grouped (concat (map the_tasks b)),
        messages := messages (after_approval b)
          @ [''Completed '' @ str_nat (length (grouped (concat (map the_tasks b))))
             @ '' tasks'']\<rparr>"

text \<open>A world in which nothing has happened yet, and three environments.\<close>

definition empty_world :: world where
  "empty_world = \<lparr>stdout = [], requests = [], slept = 0\<rparr>"

definition env_up :: env where
  "env_up = \<lparr>getenv = Map.empty, dashboard = (\<lambda>n r. Response 200), installed = (\<lambda>m. True)\<rparr>"

definition env_down :: env where
  "env_down =
     \<lparr>getenv = Map.empty,
      dashboard = (\<lambda>n r. Raises ClientConnectorError),
      installed = (\<lambda>m. True)\<rparr>"

definition env_no_aiohttp :: env where
  "env_no_aiohttp =
     \<lparr>getenv = Map.empty,
      dashboard = (\<lambda>n r. Raises ClientConnectorError),
      installed = (\<lambda>m. m \<noteq> ''aiohttp'')\<rparr>"

section \<open>Planning: the derived tasks\<close>

lemma item_tasks_wf:
  "has_id_title item \<Longrightarrow> item_tasks item = Inr (the_tasks item)"
  by (auto simp: has_id_title_def the_tasks_def item_tasks_def split: option.splits)

lemma the_tasks_shape:
  "has_id_title item \<Longrightarrow>
     \<exists>i t. item ''id'' = Some i \<and> item ''title'' = Some t \<and>
       the_tasks item =
         [\<lparr>task_id = format i @ ''-backend'', task_title = ''Backend: '' @ format t,
            assignee = ''backend''\<rparr>,
          \<lparr>task_id = format i @ ''-frontend'', task_title = ''Frontend: '' @ format t,
            assignee = ''frontend''\<rparr>,
          \<lparr>task_id = format i @ ''-tests'', task_title = ''Tests: '' @ format t,
            assignee = ''qa''\<rparr>]"
  by (auto simp: has_id_title_def the_tasks_def item_tasks_def split: option.splits)

lemma the_tasks_length: "has_id_title item \<Longrightarrow> length (the_tasks item) = 3"
  using the_tasks_shape[of item] by auto

lemma the_tasks_assignee:
  "has_id_title item \<Longrightarrow> map assignee (the_tasks item) = [''backend'', ''frontend'', ''qa'']"
  using the_tasks_shape[of item] by auto

lemma plan_loop_wf:
  "wf_backlog b \<Longrightarrow> plan_loop b acc = Inr (acc @ concat (map the_tasks b))"
  by (induction b arbitrary: acc) (auto simp: wf_backlog_def item_tasks_wf)

lemma length_derived:
  "wf_backlog b \<Longrightarrow> length (concat (map the_tasks b)) = 3 * length b"
  by (induction b) (auto simp: wf_backlog_def the_tasks_length)

lemma slice_derived:
  "wf_backlog b \<Longrightarrow> i < length b \<Longrightarrow>
     take 3 (drop (3 * i) (concat (map the_tasks b))) = the_tasks (b ! i)"
proof (induction b arbitrary: i)
  case Nil
  then show ?case by simp
next
  case (Cons x b)
  then have x: "length (the_tasks x) = 3" and b: "wf_backlog b"
    by (simp_all add: wf_backlog_def the_tasks_length)
  show ?case
  proof (cases i)
    case 0
    then show ?thesis using x by simp
  next
    case (Suc j)
    then have "j < length b" using Cons.prems by simp
    then have "take 3 (drop (3 * j) (concat (map the_tasks b))) = the_tasks (b ! j)"
      using Cons.IH b by simp
    then show ?thesis using Suc x by simp
  qed
qed

section \<open>The agent never raises\<close>

lemma update_dashboard_ok:
  "\<exists>w'. Agent_update_dashboard e a status message w = (Inr (), w')"
  by (simp add: Agent_update_dashboard_def split: prod.splits outcome.splits)

lemma setup_ok:
  "\<exists>w'. Agent_setup e a w = (Inr (a\<lparr>session := Some SessionOpen\<rparr>), w')"
  by (simp add: Agent_setup_def Let_def split: prod.splits outcome.splits)

lemma work_ok:
  "\<exists>w'. work e a ts c w = (Inr (c @ map task_id ts), w')"
proof (induction ts arbitrary: c w)
  case Nil
  then show ?case by simp
next
  case (Cons t ts)
  obtain w1 where w1:
    "Agent_update_dashboard e a ''busy'' (''Working on: '' @ task_title t) w = (Inr (), w1)"
    using update_dashboard_ok by blast
  obtain w3 where w3:
    "Agent_update_dashboard e a ''idle'' (''Completed: '' @ task_title t)
       (print (''  '' @ tick @ '' Completed: '' @ task_title t) (sleep 1 w1)) = (Inr (), w3)"
    using update_dashboard_ok by blast
  from Cons.IH[of "c @ [task_id t]" w3] w1 w3 show ?case by (simp add: Let_def)
qed

lemma build_ok:
  "\<forall>ty \<in> set types. map_of agents ty \<noteq> None \<Longrightarrow>
     \<exists>w'. build e agents ts types c w
            = (Inr (c @ concat (map (\<lambda>ty. ids_of_type ty ts) types)), w')"
proof (induction types arbitrary: c w)
  case Nil
  then show ?case by simp
next
  case (Cons ty types)
  then obtain ag where ag: "map_of agents ty = Some ag" by auto
  let ?tt = "filter (\<lambda>t. assignee t = ty) ts"
  show ?case
  proof (cases "?tt = []")
    case True
    then show ?thesis using Cons by (simp add: ids_of_type_def)
  next
    case False
    obtain w1 where w1: "work e ag ?tt c
        (print (nl @ emoji_bust @ '' '' @ name ag @ '' working on ''
                @ str_nat (length ?tt) @ '' tasks...'') w) = (Inr (c @ map task_id ?tt), w1)"
      using work_ok by blast
    from Cons.IH[of "c @ map task_id ?tt" w1] Cons.prems
    obtain w' where "build e agents ts types (c @ map task_id ?tt) w1
        = (Inr ((c @ map task_id ?tt) @ concat (map (\<lambda>ty. ids_of_type ty ts) types)), w')"
      by auto
    then show ?thesis using False ag w1 by (simp add: ids_of_type_def)
  qed
qed

lemma setup_all_ok:
  "\<exists>ags w'. setup_all e agents w = (Inr ags, w') \<and> map fst ags = map fst agents"
proof (induction agents arbitrary: w)
  case Nil
  then show ?case by simp
next
  case (Cons ka agents)
  obtain k a where ka: "ka = (k, a)" by (cases ka)
  obtain w1 where w1: "Agent_setup e a w = (Inr (a\<lparr>session := Some SessionOpen\<rparr>), w1)"
    using setup_ok by blast
  from Cons.IH[of w1] obtain ags w2 where
    "setup_all e agents w1 = (Inr ags, w2)" "map fst ags = map fst agents" by blast
  then show ?case using ka w1 by simp
qed

section \<open>The nodes and the run\<close>

lemma building_node_ok:
  assumes "plan st = Some p"
  shows "\<exists>w'. building_node e st w =
           (Inr \<lparr>upd_phase = Some Complete, upd_plan = None,
                 upd_completed_tasks = Some (grouped (tasks p)),
                 upd_messages = Some (messages st
                   @ [''Completed '' @ str_nat (length (grouped (tasks p))) @ '' tasks''])\<rparr>, w')"
proof -
  let ?agents = "[(''backend'', Agent_init ''Backend SWE'' ''engineer''),
                  (''frontend'', Agent_init ''Frontend SWE'' ''engineer''),
                  (''qa'', Agent_init ''QA Engineer'' ''tester'')]"
  let ?w0 = "print (nl @ emoji_hammer @ '' BUILDING PHASE'') w"
  obtain ags w1 where s: "setup_all e ?agents ?w0 = (Inr ags, w1)"
    and k: "map fst ags = map fst ?agents"
    using setup_all_ok by blast
  have "set (map fst ags) = {''backend'', ''frontend'', ''qa''}"
    using k by simp
  then have "fst ` set ags = {''backend'', ''frontend'', ''qa''}"
    by simp
  then have "\<forall>ty \<in> set [''backend'', ''frontend'', ''qa'']. map_of ags ty \<noteq> None"
    by (simp add: map_of_eq_None_iff)
  from build_ok[OF this, of e "tasks p" "[]" w1]
  obtain w2 where b: "build e ags (tasks p) [''backend'', ''frontend'', ''qa''] [] w1
      = (Inr (grouped (tasks p)), w2)"
    by (auto simp: grouped_def)
  show ?thesis
    using s b assms by (simp add: building_node_def Let_def)
qed

lemma building_node_no_plan:
  "plan st = None \<Longrightarrow> fst (building_node e st w) = Inl (KeyError ''tasks'')"
proof -
  assume a: "plan st = None"
  obtain ags w1 where
    "setup_all e [(''backend'', Agent_init ''Backend SWE'' ''engineer''),
                  (''frontend'', Agent_init ''Frontend SWE'' ''engineer''),
                  (''qa'', Agent_init ''QA Engineer'' ''tester'')]
       (print (nl @ emoji_hammer @ '' BUILDING PHASE'') w) = (Inr ags, w1)"
    using setup_all_ok by blast
  then show ?thesis using a by (simp add: building_node_def Let_def)
qed

lemma planning_node_ok:
  assumes "wf_backlog (backlog st)"
  shows "\<exists>w'. planning_node st w =
     (Inr \<lparr>upd_phase = Some Approval,
           upd_plan = Some \<lparr>tasks = concat (map the_tasks (backlog st)),
                            total_tasks = length (concat (map the_tasks (backlog st)))\<rparr>,
           upd_completed_tasks = None,
           upd_messages = Some (messages st @ [''Created plan with ''
              @ str_nat (length (concat (map the_tasks (backlog st)))) @ '' tasks''])\<rparr>, w')"
  using plan_loop_wf[OF assms, of "[]"] by (simp add: planning_node_def Let_def)

lemma approval_node_ok:
  "\<exists>w'. approval_node st w =
     (Inr \<lparr>upd_phase = Some Building, upd_plan = None, upd_completed_tasks = None,
           upd_messages = Some (messages st @ [''Plan approved by product owner''])\<rparr>, w')"
  by (simp add: approval_node_def Let_def)

lemma workflow_nodes:
  "map_of (nodes create_workflow) ''planning'' = Some (\<lambda>e. planning_node)"
  "map_of (nodes create_workflow) ''approval'' = Some (\<lambda>e. approval_node)"
  "map_of (nodes create_workflow) ''building'' = Some building_node"
  by (simp_all add: create_workflow_def add_node_def add_edge_def set_entry_point_def
      StateGraph_def)

lemma workflow_edges:
  "map_of (edges create_workflow) ''planning'' = Some ''approval''"
  "map_of (edges create_workflow) ''approval'' = Some ''building''"
  "map_of (edges create_workflow) ''building'' = Some END"
  "entry_point create_workflow = Some ''planning''"
  by (simp_all add: create_workflow_def add_node_def add_edge_def set_entry_point_def
      StateGraph_def)

lemma run_from_END: "run_from k e g END st w = (Inr [], w)"
  by (cases k) simp_all

lemma planning_step:
  assumes "wf_backlog b"
  shows "\<exists>u w'. planning_node (initial_state b) w = (Inr u, w')
           \<and> apply_update (initial_state b) u = after_planning b"
  using planning_node_ok[of "initial_state b" w] assms
  by (auto simp: apply_update_def after_planning_def initial_state_def)

lemma approval_step:
  "\<exists>u w'. approval_node (after_planning b) w = (Inr u, w')
           \<and> apply_update (after_planning b) u = after_approval b"
  using approval_node_ok[of "after_planning b" w]
  by (auto simp: apply_update_def after_approval_def after_planning_def)

lemma building_step:
  "\<exists>u w'. building_node e (after_approval b) w = (Inr u, w')
           \<and> apply_update (after_approval b) u = after_building b"
proof -
  have "plan (after_approval b) = Some \<lparr>tasks = concat (map the_tasks b),
                   total_tasks = length (concat (map the_tasks b))\<rparr>"
    by (simp add: after_approval_def after_planning_def)
  from building_node_ok[OF this, of e w] show ?thesis
    by (auto simp: apply_update_def after_building_def after_approval_def after_planning_def)
qed

lemma astream_ok:
  assumes "wf_backlog b"
  shows "\<exists>w'. astream e create_workflow (initial_state b) w =
     (Inr [(''planning'', after_planning b), (''approval'', after_approval b),
           (''building'', after_building b)], w')"
proof -
  obtain u1 w1 where p: "planning_node (initial_state b) w = (Inr u1, w1)"
    and u1: "apply_update (initial_state b) u1 = after_planning b"
    using planning_step[OF assms] by blast
  obtain u2 w2 where a: "approval_node (after_planning b) w1 = (Inr u2, w2)"
    and u2: "apply_update (after_planning b) u2 = after_approval b"
    using approval_step by blast
  obtain u3 w3 where bn: "building_node e (after_approval b) w2 = (Inr u3, w3)"
    and u3: "apply_update (after_approval b) u3 = after_building b"
    using building_step by blast
  have ne: "''planning'' \<noteq> END" "''approval'' \<noteq> END" "''building'' \<noteq> END"
    by (simp_all add: END_def)
  have r3: "run_from (Suc k) e create_workflow ''building'' (after_approval b) w2
              = (Inr [(''building'', after_building b)], w3)" for k
    by (subst run_from.simps(2))
      (simp add: ne workflow_nodes workflow_edges bn u3 run_from_END del: run_from.simps)
  have r2: "run_from (Suc (Suc k)) e create_workflow ''approval'' (after_planning b) w1
              = (Inr [(''approval'', after_approval b), (''building'', after_building b)], w3)"
    for k
    by (subst run_from.simps(2))
      (simp add: ne workflow_nodes workflow_edges a u2 r3 del: run_from.simps)
  have r1: "run_from (Suc (Suc (Suc k))) e create_workflow ''planning'' (initial_state b) w
              = (Inr [(''planning'', after_planning b), (''approval'', after_approval b),
                      (''building'', after_building b)], w3)" for k
    by (subst run_from.simps(2))
      (simp add: ne workflow_nodes workflow_edges p u1 r2 del: run_from.simps)
  have lim: "recursion_limit = Suc (Suc (Suc 22))" by (simp add: recursion_limit_def)
  show ?thesis
    unfolding astream_def workflow_edges option.case lim r1 by blast
qed

lemma ainvoke_ok:
  assumes "wf_backlog b"
  shows "\<exists>w'. ainvoke e create_workflow (initial_state b) w = (Inr (after_building b), w')"
proof -
  obtain w' where "astream e create_workflow (initial_state b) w =
     (Inr [(''planning'', after_planning b), (''approval'', after_approval b),
           (''building'', after_building b)], w')"
    using astream_ok[OF assms] by blast
  then show ?thesis by (simp add: ainvoke_def)
qed

lemma run_iteration_ok:
  assumes "wf_backlog b"
  shows "\<exists>w'. run_iteration e b w = (Inr (), w')"
proof -
  obtain w' where "ainvoke e create_workflow (initial_state b)
      (print (emoji_rocket @ '' Starting iteration...'') w) = (Inr (after_building b), w')"
    using ainvoke_ok[OF assms] by blast
  then show ?thesis by (simp add: run_iteration_def Let_def)
qed

lemma mset_grouped:
  "\<forall>t \<in> set ts. assignee t \<in> {''backend'', ''frontend'', ''qa''} \<Longrightarrow>
     mset (grouped ts) = mset (map task_id ts)"
  by (induction ts) (auto simp: grouped_def ids_of_type_def)

lemma derived_assignees:
  "wf_backlog b \<Longrightarrow>
     \<forall>t \<in> set (concat (map the_tasks b)). assignee t \<in> {''backend'', ''frontend'', ''qa''}"
proof (induction b)
  case Nil
  then show ?case by simp
next
  case (Cons x b)
  then have "has_id_title x" "wf_backlog b" by (simp_all add: wf_backlog_def)
  moreover from this obtain i t where "the_tasks x =
         [\<lparr>task_id = format i @ ''-backend'', task_title = ''Backend: '' @ format t,
            assignee = ''backend''\<rparr>,
          \<lparr>task_id = format i @ ''-frontend'', task_title = ''Frontend: '' @ format t,
            assignee = ''frontend''\<rparr>,
          \<lparr>task_id = format i @ ''-tests'', task_title = ''Tests: '' @ format t,
            assignee = ''qa''\<rparr>]"
    using the_tasks_shape by blast
  ultimately show ?case using Cons.IH by auto
qed

lemma mset_grouped_derived:
  "wf_backlog b \<Longrightarrow>
     mset (grouped (concat (map the_tasks b))) = mset (map task_id (concat (map the_tasks b)))"
  using mset_grouped[OF derived_assignees] .

lemma length_grouped_derived:
  assumes "wf_backlog b"
  shows "length (grouped (concat (map the_tasks b))) = length (concat (map the_tasks b))"
proof -
  have "size (mset (grouped (concat (map the_tasks b))))
          = size (mset (map task_id (concat (map the_tasks b))))"
    using mset_grouped_derived[OF assms] by simp
  then show ?thesis by simp
qed

lemma suffix_differs: "a @ ''-backend'' \<noteq> b @ ''-frontend''"
proof
  assume "a @ ''-backend'' = b @ ''-frontend''"
  then have "take 8 (rev (a @ ''-backend'')) = take 8 (rev (b @ ''-frontend''))" by simp
  then show False by simp
qed

lemma grouped_differs:
  assumes "wf_backlog b" and "2 \<le> length b"
  shows "grouped (concat (map the_tasks b)) \<noteq> map task_id (concat (map the_tasks b))"
proof -
  from assms(2) obtain x y rest where b: "b = x # y # rest"
    by (cases b; cases "tl b") auto
  with assms(1) have hx: "has_id_title x" and hy: "has_id_title y"
    by (simp_all add: wf_backlog_def)
  obtain i t where x: "the_tasks x =
         [\<lparr>task_id = format i @ ''-backend'', task_title = ''Backend: '' @ format t,
            assignee = ''backend''\<rparr>,
          \<lparr>task_id = format i @ ''-frontend'', task_title = ''Frontend: '' @ format t,
            assignee = ''frontend''\<rparr>,
          \<lparr>task_id = format i @ ''-tests'', task_title = ''Tests: '' @ format t,
            assignee = ''qa''\<rparr>]"
    using the_tasks_shape[OF hx] by blast
  obtain j u where y: "the_tasks y =
         [\<lparr>task_id = format j @ ''-backend'', task_title = ''Backend: '' @ format u,
            assignee = ''backend''\<rparr>,
          \<lparr>task_id = format j @ ''-frontend'', task_title = ''Frontend: '' @ format u,
            assignee = ''frontend''\<rparr>,
          \<lparr>task_id = format j @ ''-tests'', task_title = ''Tests: '' @ format u,
            assignee = ''qa''\<rparr>]"
    using the_tasks_shape[OF hy] by blast
  have g: "grouped (concat (map the_tasks b)) ! 1 = format j @ ''-backend''"
    by (simp add: b x y grouped_def ids_of_type_def)
  have p: "map task_id (concat (map the_tasks b)) ! 1 = format i @ ''-frontend''"
    by (simp add: b x y)
  show ?thesis
  proof
    assume "grouped (concat (map the_tasks b)) = map task_id (concat (map the_tasks b))"
    then have "format j @ ''-backend'' = format i @ ''-frontend''"
      using g p by simp
    then show False using suffix_differs by blast
  qed
qed

lemma wf_example: "wf_backlog example_backlog"
  by (simp add: wf_backlog_def example_backlog_def has_id_title_def)

lemma wf_empty: "wf_backlog []"
  by (simp add: wf_backlog_def)

section \<open>The run on the example backlog\<close>

lemma str_nat_6: "str_nat 6 = ''6''"
  by code_simp

lemma example_tasks:
  "concat (map the_tasks example_backlog) =
     [\<lparr>task_id = ''FEAT-001-backend'', task_title = ''Backend: User Login API'',
        assignee = ''backend''\<rparr>,
      \<lparr>task_id = ''FEAT-001-frontend'', task_title = ''Frontend: User Login API'',
        assignee = ''frontend''\<rparr>,
      \<lparr>task_id = ''FEAT-001-tests'', task_title = ''Tests: User Login API'',
        assignee = ''qa''\<rparr>,
      \<lparr>task_id = ''FEAT-002-backend'', task_title = ''Backend: Dashboard UI'',
        assignee = ''backend''\<rparr>,
      \<lparr>task_id = ''FEAT-002-frontend'', task_title = ''Frontend: Dashboard UI'',
        assignee = ''frontend''\<rparr>,
      \<lparr>task_id = ''FEAT-002-tests'', task_title = ''Tests: Dashboard UI'',
        assignee = ''qa''\<rparr>]"
  by (simp add: example_backlog_def the_tasks_def item_tasks_def)

lemma example_grouped:
  "grouped (concat (map the_tasks example_backlog)) =
     [''FEAT-001-backend'', ''FEAT-002-backend'', ''FEAT-001-frontend'',
      ''FEAT-002-frontend'', ''FEAT-001-tests'', ''FEAT-002-tests'']"
  by (simp add: example_tasks grouped_def ids_of_type_def)

lemma example_lengths:
  "length (concat (map the_tasks example_backlog)) = 6"
  "length (grouped (concat (map the_tasks example_backlog))) = 6"
  by (simp add: example_tasks) (simp add: example_grouped)

lemma example_completed:
  "completed_tasks (after_building example_backlog) =
     [''FEAT-001-backend'', ''FEAT-002-backend'', ''FEAT-001-frontend'',
      ''FEAT-002-frontend'', ''FEAT-001-tests'', ''FEAT-002-tests'']"
  by (simp add: after_building_def after_approval_def after_planning_def example_grouped)

lemma example_messages:
  "messages (after_building example_backlog) =
     [''Created plan with 6 tasks'', ''Plan approved by product owner'',
      ''Completed 6 tasks'']"
  by (simp add: after_building_def after_approval_def after_planning_def example_lengths
      str_nat_6)

lemma example_plan_ids:
  "map task_id (concat (map the_tasks example_backlog)) =
     [''FEAT-001-backend'', ''FEAT-001-frontend'', ''FEAT-001-tests'',
      ''FEAT-002-backend'', ''FEAT-002-frontend'', ''FEAT-002-tests'']"
  by (simp add: example_tasks)

lemma after_building_plan:
  "plan (after_building b) = Some \<lparr>tasks = concat (map the_tasks b),
      total_tasks = length (concat (map the_tasks b))\<rparr>"
  by (simp add: after_building_def after_approval_def after_planning_def)

section \<open>Backlogs with an item that lacks a key\<close>

lemma item_tasks_Inr: "item_tasks item = Inr ts \<Longrightarrow> has_id_title item"
  by (auto simp: item_tasks_def has_id_title_def split: option.splits)

lemma plan_loop_Inr_wf: "plan_loop b acc = Inr ts \<Longrightarrow> wf_backlog b"
proof (induction b arbitrary: acc)
  case Nil
  then show ?case by (simp add: wf_backlog_def)
next
  case (Cons x b)
  then obtain xs where x: "item_tasks x = Inr xs" and r: "plan_loop b (acc @ xs) = Inr ts"
    by (auto split: sum.splits)
  from Cons.IH[OF r] item_tasks_Inr[OF x] show ?case by (simp add: wf_backlog_def)
qed

lemma astream_raises:
  assumes "plan_loop b [] = Inl x"
  shows "fst (astream e create_workflow (initial_state b) w) = Inl x"
proof -
  have lim: "recursion_limit = Suc 24" by (simp add: recursion_limit_def)
  have ne: "''planning'' \<noteq> END" by (simp add: END_def)
  have "fst (planning_node (initial_state b) w) = Inl x"
    using assms by (simp add: planning_node_def initial_state_def Let_def)
  then obtain w1 where "planning_node (initial_state b) w = (Inl x, w1)"
    by (cases "planning_node (initial_state b) w") auto
  then show ?thesis
    unfolding astream_def workflow_edges option.case lim
    by (subst run_from.simps(2)) (simp add: ne workflow_nodes del: run_from.simps)
qed

lemma ainvoke_fst:
  "fst (ainvoke e create_workflow (initial_state b) w) =
     (case plan_loop b [] of Inl x \<Rightarrow> Inl x | Inr ts \<Rightarrow> Inr (after_building b))"
proof (cases "plan_loop b []")
  case (Inl x)
  from astream_raises[OF this, of e w] Inl show ?thesis
    by (auto simp: ainvoke_def split: prod.splits sum.splits)
next
  case (Inr ts)
  from ainvoke_ok[OF plan_loop_Inr_wf[OF this], of e w] Inr show ?thesis by auto
qed

lemma run_iteration_fst:
  "fst (run_iteration e b w) =
     (case plan_loop b [] of Inl x \<Rightarrow> Inl x | Inr ts \<Rightarrow> Inr ())"
proof -
  have "fst (ainvoke e create_workflow (initial_state b)
               (print (emoji_rocket @ '' Starting iteration...'') w)) =
     (case plan_loop b [] of Inl x \<Rightarrow> Inl x | Inr ts \<Rightarrow> Inr (after_building b))"
    by (rule ainvoke_fst)
  then show ?thesis
    by (cases "ainvoke e create_workflow (initial_state b)
               (print (emoji_rocket @ '' Starting iteration...'') w)")
       (auto simp: run_iteration_def Let_def split: sum.splits)
qed

lemma item_without_id_raises:
  "fst (ainvoke e create_workflow (initial_state [Map.empty]) w) = Inl (KeyError ''id'')"
  by (simp add: ainvoke_fst item_tasks_def)

section \<open>The claims\<close>

text \<open>
  C1. For a backlog of N items that each have an id and a title, \<^verbatim>\<open>planning_node\<close>
  returns a plan of exactly 3 * N tasks. The three tasks at positions 3 * i, 3 * i + 1
  and 3 * i + 2 are the ones derived from item i, and their assignees are backend,
  frontend and qa, in this order.
\<close>

theorem planning_node_three_tasks_per_item:
  assumes "wf_backlog (backlog st)"
  shows "\<exists>u p w'. planning_node st w = (Inr u, w') \<and> upd_plan u = Some p
           \<and> length (tasks p) = 3 * length (backlog st)
           \<and> (\<forall>i < length (backlog st).
                 item_tasks (backlog st ! i) = Inr (take 3 (drop (3 * i) (tasks p)))
                 \<and> map assignee (take 3 (drop (3 * i) (tasks p)))
                     = [''backend'', ''frontend'', ''qa''])"
proof -
  let ?ts = "concat (map the_tasks (backlog st))"
  obtain w' where pn: "planning_node st w =
     (Inr \<lparr>upd_phase = Some Approval,
           upd_plan = Some \<lparr>tasks = ?ts, total_tasks = length ?ts\<rparr>,
           upd_completed_tasks = None,
           upd_messages = Some (messages st @ [''Created plan with ''
              @ str_nat (length ?ts) @ '' tasks''])\<rparr>, w')"
    using planning_node_ok[OF assms] by blast
  have per_item: "item_tasks (backlog st ! i) = Inr (take 3 (drop (3 * i) ?ts))
        \<and> map assignee (take 3 (drop (3 * i) ?ts)) = [''backend'', ''frontend'', ''qa'']"
    if "i < length (backlog st)" for i
  proof -
    have h: "has_id_title (backlog st ! i)"
      using assms that by (simp add: wf_backlog_def list_all_length)
    have "take 3 (drop (3 * i) ?ts) = the_tasks (backlog st ! i)"
      using slice_derived[OF assms that] .
    then show ?thesis
      using item_tasks_wf[OF h] the_tasks_assignee[OF h] by simp
  qed
  show ?thesis
    using pn length_derived[OF assms] per_item by simp
qed

theorem planning_node_three_tasks_per_item_witness:
  "wf_backlog (backlog (initial_state example_backlog))
   \<and> (\<exists>u p w'. planning_node (initial_state example_backlog) empty_world = (Inr u, w')
         \<and> upd_plan u = Some p \<and> length (tasks p) = 6)"
proof -
  have h: "wf_backlog (backlog (initial_state example_backlog))"
    by (simp add: initial_state_def wf_example)
  have n: "length (backlog (initial_state example_backlog)) = 2"
    by (simp add: initial_state_def example_backlog_def)
  from planning_node_three_tasks_per_item[OF h, of empty_world] n
  have "\<exists>u p w'. planning_node (initial_state example_backlog) empty_world = (Inr u, w')
         \<and> upd_plan u = Some p \<and> length (tasks p) = 6"
    by auto
  with h show ?thesis by blast
qed

text \<open>
  C2. For a backlog whose items have an id and a title, and for every behaviour of the
  dashboard, the run ends in a state whose completed-task list is as long as the task
  list of the plan, which is the one the planning loop derives from the backlog, and
  holds exactly the identifiers of the plan's tasks, each as often as the plan has it.
\<close>

theorem completed_tasks_are_plan_ids:
  assumes "wf_backlog b"
  shows "\<exists>s p w'. ainvoke e create_workflow (initial_state b) w = (Inr s, w')
           \<and> plan s = Some p \<and> plan_loop b [] = Inr (tasks p)
           \<and> length (completed_tasks s) = length (tasks p)
           \<and> length (completed_tasks s) = total_tasks p
           \<and> mset (completed_tasks s) = mset (map task_id (tasks p))"
proof -
  obtain w' where "ainvoke e create_workflow (initial_state b) w = (Inr (after_building b), w')"
    using ainvoke_ok[OF assms] by blast
  moreover have "plan (after_building b) = Some \<lparr>tasks = concat (map the_tasks b),
      total_tasks = length (concat (map the_tasks b))\<rparr>"
    by (simp add: after_building_def after_approval_def after_planning_def)
  moreover have "completed_tasks (after_building b) = grouped (concat (map the_tasks b))"
    by (simp add: after_building_def after_approval_def after_planning_def)
  moreover have "plan_loop b [] = Inr (concat (map the_tasks b))"
    using plan_loop_wf[OF assms, of "[]"] by simp
  ultimately show ?thesis
    using length_grouped_derived[OF assms] mset_grouped_derived[OF assms] by simp
qed

theorem completed_tasks_are_plan_ids_witness:
  "wf_backlog example_backlog
   \<and> (\<exists>s p w'. ainvoke env_down create_workflow (initial_state example_backlog) empty_world
                  = (Inr s, w')
         \<and> plan s = Some p
         \<and> length (completed_tasks s) = length (tasks p)
         \<and> mset (completed_tasks s) = mset (map task_id (tasks p)))"
proof -
  from completed_tasks_are_plan_ids[OF wf_example, of env_down empty_world]
  have "\<exists>s p w'. ainvoke env_down create_workflow (initial_state example_backlog) empty_world
                  = (Inr s, w')
         \<and> plan s = Some p
         \<and> length (completed_tasks s) = length (tasks p)
         \<and> mset (completed_tasks s) = mset (map task_id (tasks p))"
    by blast
  with wf_example show ?thesis by blast
qed

text \<open>
  C3. For a backlog whose items have an id and a title, the empty backlog included, the
  run starts in phase planning, runs the nodes planning, approval and building in this
  order and no other, leaves the phase at approval, building and complete after them,
  and ends in phase complete.
\<close>

theorem phases_in_fixed_order:
  assumes "wf_backlog b"
  shows "phase (initial_state b) = Planning
         \<and> (\<exists>tr w'. astream e create_workflow (initial_state b) w = (Inr tr, w')
               \<and> map fst tr = [''planning'', ''approval'', ''building'']
               \<and> map (\<lambda>(n, s). phase s) tr = [Approval, Building, Complete])
         \<and> (\<exists>s w'. ainvoke e create_workflow (initial_state b) w = (Inr s, w')
               \<and> phase s = Complete)"
proof -
  obtain w1 where "astream e create_workflow (initial_state b) w =
     (Inr [(''planning'', after_planning b), (''approval'', after_approval b),
           (''building'', after_building b)], w1)"
    using astream_ok[OF assms] by blast
  moreover obtain w2 where
    "ainvoke e create_workflow (initial_state b) w = (Inr (after_building b), w2)"
    using ainvoke_ok[OF assms] by blast
  ultimately show ?thesis
    by (simp add: initial_state_def after_building_def after_approval_def after_planning_def)
qed

theorem phases_in_fixed_order_witness:
  "wf_backlog []
   \<and> (\<exists>tr w'. astream env_down create_workflow (initial_state []) empty_world = (Inr tr, w')
         \<and> map fst tr = [''planning'', ''approval'', ''building'']
         \<and> map (\<lambda>(n, s). phase s) tr = [Approval, Building, Complete])"
proof -
  from phases_in_fixed_order[OF wf_empty, of env_down empty_world]
  have "\<exists>tr w'. astream env_down create_workflow (initial_state []) empty_world = (Inr tr, w')
         \<and> map fst tr = [''planning'', ''approval'', ''building'']
         \<and> map (\<lambda>(n, s). phase s) tr = [Approval, Building, Complete]"
    by blast
  with wf_empty show ?thesis by blast
qed

text \<open>
  C4. For every backlog, the final state of a run, or the exception that ends it, does
  not depend on the dashboard or on anything else in the environment: two runs on the
  same backlog, whatever the two dashboards do (one may answer every call and the other
  fail every call), end alike. When the items of the backlog have an id and a title,
  neither run raises, both end in phase complete and both have completed three tasks
  per item.
\<close>

theorem dashboard_does_not_alter_outcome:
  "fst (ainvoke e1 create_workflow (initial_state b) w1)
     = fst (ainvoke e2 create_workflow (initial_state b) w2)
   \<and> fst (run_iteration e1 b w1) = fst (run_iteration e2 b w2)
   \<and> (wf_backlog b \<longrightarrow>
        (\<exists>s1 s2 w1' w2'.
           ainvoke e1 create_workflow (initial_state b) w1 = (Inr s1, w1')
         \<and> ainvoke e2 create_workflow (initial_state b) w2 = (Inr s2, w2')
         \<and> phase s1 = Complete \<and> phase s2 = Complete
         \<and> length (completed_tasks s1) = 3 * length b
         \<and> length (completed_tasks s2) = 3 * length b)
        \<and> fst (run_iteration e1 b w1) = Inr ()
        \<and> fst (run_iteration e2 b w2) = Inr ())"
proof -
  have "fst (ainvoke e1 create_workflow (initial_state b) w1)
     = fst (ainvoke e2 create_workflow (initial_state b) w2)"
    by (simp only: ainvoke_fst)
  moreover have "fst (run_iteration e1 b w1) = fst (run_iteration e2 b w2)"
    by (simp only: run_iteration_fst)
  moreover have "(\<exists>s1 s2 w1' w2'.
           ainvoke e1 create_workflow (initial_state b) w1 = (Inr s1, w1')
         \<and> ainvoke e2 create_workflow (initial_state b) w2 = (Inr s2, w2')
         \<and> phase s1 = Complete \<and> phase s2 = Complete
         \<and> length (completed_tasks s1) = 3 * length b
         \<and> length (completed_tasks s2) = 3 * length b)
        \<and> fst (run_iteration e1 b w1) = Inr ()
        \<and> fst (run_iteration e2 b w2) = Inr ()"
    if wfb: "wf_backlog b"
  proof -
    obtain w1' where a1:
      "ainvoke e1 create_workflow (initial_state b) w1 = (Inr (after_building b), w1')"
      using ainvoke_ok[OF wfb] by blast
    obtain w2' where a2:
      "ainvoke e2 create_workflow (initial_state b) w2 = (Inr (after_building b), w2')"
      using ainvoke_ok[OF wfb] by blast
    obtain w1'' where r1: "run_iteration e1 b w1 = (Inr (), w1'')"
      using run_iteration_ok[OF wfb] by blast
    obtain w2'' where r2: "run_iteration e2 b w2 = (Inr (), w2'')"
      using run_iteration_ok[OF wfb] by blast
    have ph: "phase (after_building b) = Complete"
      by (simp add: after_building_def)
    have n: "length (completed_tasks (after_building b)) = 3 * length b"
      using length_grouped_derived[OF wfb] length_derived[OF wfb]
      by (simp add: after_building_def)
    show ?thesis using a1 a2 r1 r2 ph n by simp
  qed
  ultimately show ?thesis by blast
qed

theorem dashboard_does_not_alter_outcome_witness:
  "wf_backlog example_backlog
   \<and> (\<exists>s1 s2 w1' w2'.
         ainvoke env_up create_workflow (initial_state example_backlog) empty_world
           = (Inr s1, w1')
       \<and> ainvoke env_down create_workflow (initial_state example_backlog) empty_world
           = (Inr s2, w2')
       \<and> phase s1 = Complete \<and> phase s2 = Complete
       \<and> length (completed_tasks s1) = 6
       \<and> length (completed_tasks s2) = 6)"
proof -
  have n: "3 * length example_backlog = 6"
    by (simp add: example_backlog_def)
  from dashboard_does_not_alter_outcome[of env_up example_backlog empty_world env_down
      empty_world] wf_example
  have "\<exists>s1 s2 w1' w2'.
         ainvoke env_up create_workflow (initial_state example_backlog) empty_world
           = (Inr s1, w1')
       \<and> ainvoke env_down create_workflow (initial_state example_backlog) empty_world
           = (Inr s2, w2')
       \<and> phase s1 = Complete \<and> phase s2 = Complete
       \<and> length (completed_tasks s1) = 3 * length example_backlog
       \<and> length (completed_tasks s2) = 3 * length example_backlog"
    by blast
  with wf_example show ?thesis unfolding n by blast
qed

text \<open>
  C5. Whatever the dashboard does with a call (answer with any status, refuse the
  connection, time out), \<^verbatim>\<open>Agent.setup\<close> and \<^verbatim>\<open>Agent.update_dashboard\<close> return
  normally, and \<^verbatim>\<open>building_node\<close>, which makes all these calls, returns normally
  on every state that holds a plan.
\<close>

theorem agent_calls_never_raise:
  "(\<exists>a' w'. Agent_setup e a w = (Inr a', w'))
   \<and> (\<exists>w'. Agent_update_dashboard e a status message w = (Inr (), w'))
   \<and> (plan st \<noteq> None \<longrightarrow> (\<exists>u w'. building_node e st w = (Inr u, w')))"
proof -
  have "\<exists>a' w'. Agent_setup e a w = (Inr a', w')"
    using setup_ok by blast
  moreover have "\<exists>w'. Agent_update_dashboard e a status message w = (Inr (), w')"
    by (rule update_dashboard_ok)
  moreover have "plan st \<noteq> None \<longrightarrow> (\<exists>u w'. building_node e st w = (Inr u, w'))"
  proof
    assume "plan st \<noteq> None"
    then obtain p where "plan st = Some p" by auto
    from building_node_ok[OF this, of e w] show "\<exists>u w'. building_node e st w = (Inr u, w')"
      by blast
  qed
  ultimately show ?thesis by blast
qed

theorem agent_calls_never_raise_witness:
  "plan (after_approval example_backlog) \<noteq> None
   \<and> (\<exists>a' w'. Agent_setup env_down (Agent_init ''QA Engineer'' ''tester'') empty_world
                 = (Inr a', w'))
   \<and> (\<exists>w'. Agent_update_dashboard env_down (Agent_init ''QA Engineer'' ''tester'')
              ''busy'' ''Working on: Tests: Dashboard UI'' empty_world = (Inr (), w'))
   \<and> (\<exists>u w'. building_node env_down (after_approval example_backlog) empty_world
                = (Inr u, w'))"
proof -
  have h: "plan (after_approval example_backlog) \<noteq> None"
    by (simp add: after_approval_def after_planning_def)
  show ?thesis
    using h agent_calls_never_raise[of env_down "Agent_init ''QA Engineer'' ''tester''"
        empty_world "''busy''" "''Working on: Tests: Dashboard UI''"
        "after_approval example_backlog"]
    by blast
qed

text \<open>
  C6. When langgraph, aiohttp or dotenv cannot be imported, the quick-start program
  prints its two lines about the missing packages and exits with status 1. It prints
  nothing else, issues no request and does not sleep: no stage of the workflow has run.
\<close>

theorem missing_dependency_exits_1:
  assumes "\<not> (installed e ''langgraph'' \<and> installed e ''aiohttp'' \<and> installed e ''dotenv'')"
  shows "quickstart e w =
           (Inl (SystemExit 1),
            w\<lparr>stdout := stdout w
                 @ [emoji_cross @ '' Missing required packages!'',
                    ''Please run: pip install langgraph aiohttp python-dotenv'']\<rparr>)
         \<and> exit_status (fst (quickstart e w)) = 1
         \<and> requests (snd (quickstart e w)) = requests w
         \<and> slept (snd (quickstart e w)) = slept w"
proof -
  have "\<exists>m. import_check e = Inl (ModuleNotFoundError m)"
    using assms by (auto simp: import_check_def)
  then obtain m where "import_check e = Inl (ModuleNotFoundError m)" ..
  then have "quickstart e w =
           (Inl (SystemExit 1),
            w\<lparr>stdout := stdout w
                 @ [emoji_cross @ '' Missing required packages!'',
                    ''Please run: pip install langgraph aiohttp python-dotenv'']\<rparr>)"
    by (simp add: quickstart_def print_def)
  then show ?thesis by simp
qed

theorem missing_dependency_exits_1_witness:
  "\<not> (installed env_no_aiohttp ''langgraph'' \<and> installed env_no_aiohttp ''aiohttp''
        \<and> installed env_no_aiohttp ''dotenv'')
   \<and> fst (quickstart env_no_aiohttp empty_world) = Inl (SystemExit 1)
   \<and> stdout (snd (quickstart env_no_aiohttp empty_world))
       = [emoji_cross @ '' Missing required packages!'',
          ''Please run: pip install langgraph aiohttp python-dotenv'']
   \<and> exit_status (fst (quickstart env_no_aiohttp empty_world)) = 1"
proof -
  have h: "\<not> (installed env_no_aiohttp ''langgraph'' \<and> installed env_no_aiohttp ''aiohttp''
        \<and> installed env_no_aiohttp ''dotenv'')"
    by (simp add: env_no_aiohttp_def)
  show ?thesis
    using h missing_dependency_exits_1[OF h, of empty_world]
    by (simp add: empty_world_def)
qed

text \<open>
  C7. The plan that \<^verbatim>\<open>planning_node\<close> returns, or the exception it raises, is a
  function of the backlog alone: two calls on states with equal backlogs, in any two
  worlds, agree on it, whatever the phase, plan and completed tasks of the states are.
  When the messages of the two states are equal as well, the whole returned update is
  the same. The node takes no environment: it reads neither the process environment nor
  the dashboard.
\<close>

theorem planning_node_deterministic:
  assumes "backlog st1 = backlog st2"
  shows "map_sum id upd_plan (fst (planning_node st1 w1))
           = map_sum id upd_plan (fst (planning_node st2 w2))
         \<and> (messages st1 = messages st2
              \<longrightarrow> fst (planning_node st1 w1) = fst (planning_node st2 w2))"
  using assms by (simp add: planning_node_def Let_def split: sum.splits)

theorem planning_node_deterministic_witness:
  "backlog (initial_state example_backlog) = backlog (after_building example_backlog)
   \<and> map_sum id upd_plan (fst (planning_node (initial_state example_backlog) empty_world))
       = map_sum id upd_plan
           (fst (planning_node (after_building example_backlog)
                   (snd (building_node env_down (after_approval example_backlog) empty_world))))"
proof -
  have h: "backlog (initial_state example_backlog) = backlog (after_building example_backlog)"
    by (simp add: initial_state_def after_building_def after_approval_def after_planning_def)
  show ?thesis
    using h planning_node_deterministic[OF h, of empty_world
        "snd (building_node env_down (after_approval example_backlog) empty_world)"]
    by blast
qed

text \<open>
  C8. Each node returns the messages it was given with one string appended at the end:
  \<^verbatim>\<open>planning_node\<close> on a backlog whose items have an id and a title,
  \<^verbatim>\<open>approval_node\<close> always, \<^verbatim>\<open>building_node\<close> on a state that holds a plan. A run
  from the initial state, whose log is empty, ends with exactly three messages.
\<close>

theorem messages_append_only:
  "(wf_backlog (backlog st)
      \<longrightarrow> (\<exists>u m w'. planning_node st w = (Inr u, w')
                \<and> upd_messages u = Some (messages st @ [m])))
   \<and> (\<exists>u m w'. approval_node st w = (Inr u, w') \<and> upd_messages u = Some (messages st @ [m]))
   \<and> (plan st \<noteq> None
      \<longrightarrow> (\<exists>u m w'. building_node e st w = (Inr u, w')
                \<and> upd_messages u = Some (messages st @ [m])))
   \<and> (wf_backlog b
      \<longrightarrow> messages (initial_state b) = []
          \<and> (\<exists>s w'. ainvoke e create_workflow (initial_state b) w = (Inr s, w')
                \<and> length (messages s) = 3))"
proof -
  have "\<exists>u m w'. planning_node st w = (Inr u, w') \<and> upd_messages u = Some (messages st @ [m])"
    if "wf_backlog (backlog st)"
    using planning_node_ok[OF that, of w] by auto
  moreover have
    "\<exists>u m w'. approval_node st w = (Inr u, w') \<and> upd_messages u = Some (messages st @ [m])"
    using approval_node_ok[of st w] by auto
  moreover have
    "\<exists>u m w'. building_node e st w = (Inr u, w') \<and> upd_messages u = Some (messages st @ [m])"
    if "plan st \<noteq> None"
  proof -
    from that obtain p where "plan st = Some p" by auto
    from building_node_ok[OF this, of e w] show ?thesis by auto
  qed
  moreover have "messages (initial_state b) = []
          \<and> (\<exists>s w'. ainvoke e create_workflow (initial_state b) w = (Inr s, w')
                \<and> length (messages s) = 3)"
    if wfb: "wf_backlog b"
  proof -
    obtain w' where "ainvoke e create_workflow (initial_state b) w = (Inr (after_building b), w')"
      using ainvoke_ok[OF wfb] by blast
    then show ?thesis
      by (simp add: initial_state_def after_building_def after_approval_def after_planning_def)
  qed
  ultimately show ?thesis by blast
qed

theorem messages_append_only_witness:
  "wf_backlog (backlog (after_planning example_backlog))
   \<and> plan (after_planning example_backlog) \<noteq> None
   \<and> wf_backlog example_backlog
   \<and> (\<exists>u m w'. planning_node (after_planning example_backlog) empty_world = (Inr u, w')
         \<and> upd_messages u = Some ([''Created plan with 6 tasks''] @ [m]))
   \<and> (\<exists>u m w'. building_node env_up (after_planning example_backlog) empty_world = (Inr u, w')
         \<and> upd_messages u = Some ([''Created plan with 6 tasks''] @ [m]))
   \<and> (\<exists>s w'. ainvoke env_up create_workflow (initial_state example_backlog) empty_world
                = (Inr s, w')
         \<and> length (messages s) = 3)"
proof -
  have h1: "wf_backlog (backlog (after_planning example_backlog))"
    by (simp add: after_planning_def wf_example)
  have h2: "plan (after_planning example_backlog) \<noteq> None"
    by (simp add: after_planning_def)
  have m: "messages (after_planning example_backlog) = [''Created plan with 6 tasks'']"
    by (simp add: after_planning_def example_lengths str_nat_6)
  show ?thesis
    using h1 h2 wf_example m
      messages_append_only[of "after_planning example_backlog" empty_world env_up
        example_backlog]
    by simp
qed

text \<open>
  C9. Whenever \<^verbatim>\<open>planning_node\<close> returns, the plan it returns has a
  \<^verbatim>\<open>total_tasks\<close> equal to the length of its task list. Whenever
  \<^verbatim>\<open>approval_node\<close> or \<^verbatim>\<open>building_node\<close> returns, its update has no plan, so the
  state keeps the plan it had. In a run on a backlog whose items have an id and a
  title, the state after each of the three nodes holds a plan with this property.
\<close>

theorem total_tasks_invariant:
  "(\<forall>u w'. planning_node st w = (Inr u, w')
       \<longrightarrow> (\<exists>p. upd_plan u = Some p \<and> total_tasks p = length (tasks p)))
   \<and> (\<forall>u w'. approval_node st w = (Inr u, w')
       \<longrightarrow> upd_plan u = None \<and> plan (apply_update st u) = plan st)
   \<and> (\<forall>u w'. building_node e st w = (Inr u, w')
       \<longrightarrow> upd_plan u = None \<and> plan (apply_update st u) = plan st)
   \<and> (wf_backlog b
       \<longrightarrow> (\<exists>tr w'. astream e create_workflow (initial_state b) w = (Inr tr, w')
              \<and> length tr = 3
              \<and> (\<forall>(n, s) \<in> set tr. \<exists>p. plan s = Some p \<and> total_tasks p = length (tasks p))))"
proof -
  have "\<exists>p. upd_plan u = Some p \<and> total_tasks p = length (tasks p)"
    if "planning_node st w = (Inr u, w')" for u w'
    using that by (auto simp: planning_node_def Let_def split: sum.splits)
  moreover have "upd_plan u = None \<and> plan (apply_update st u) = plan st"
    if "approval_node st w = (Inr u, w')" for u w'
    using that by (auto simp: approval_node_def Let_def apply_update_def)
  moreover have "upd_plan u = None \<and> plan (apply_update st u) = plan st"
    if bn: "building_node e st w = (Inr u, w')" for u w'
  proof (cases "plan st")
    case None
    then show ?thesis using building_node_no_plan[of st e w] bn by simp
  next
    case (Some p)
    from building_node_ok[OF this, of e w] bn show ?thesis
      by (auto simp: apply_update_def)
  qed
  moreover have "\<exists>tr w'. astream e create_workflow (initial_state b) w = (Inr tr, w')
              \<and> length tr = 3
              \<and> (\<forall>(n, s) \<in> set tr. \<exists>p. plan s = Some p \<and> total_tasks p = length (tasks p))"
    if wfb: "wf_backlog b"
  proof -
    obtain w' where "astream e create_workflow (initial_state b) w =
       (Inr [(''planning'', after_planning b), (''approval'', after_approval b),
             (''building'', after_building b)], w')"
      using astream_ok[OF wfb] by blast
    then show ?thesis
      by (simp add: after_building_def after_approval_def after_planning_def)
  qed
  ultimately show ?thesis by blast
qed

theorem total_tasks_invariant_witness:
  "wf_backlog example_backlog
   \<and> (\<exists>u. planning_node (after_approval example_backlog) empty_world
            = (Inr u, snd (planning_node (after_approval example_backlog) empty_world))
         \<and> (\<exists>p. upd_plan u = Some p \<and> total_tasks p = length (tasks p)))
   \<and> (\<exists>u. approval_node (after_approval example_backlog) empty_world
            = (Inr u, snd (approval_node (after_approval example_backlog) empty_world))
         \<and> upd_plan u = None)
   \<and> (\<exists>u. building_node env_down (after_approval example_backlog) empty_world
            = (Inr u, snd (building_node env_down (after_approval example_backlog) empty_world))
         \<and> upd_plan u = None)
   \<and> (\<exists>tr w'. astream env_down create_workflow (initial_state example_backlog) empty_world
                 = (Inr tr, w')
         \<and> length tr = 3
         \<and> (\<forall>(n, s) \<in> set tr. \<exists>p. plan s = Some p \<and> total_tasks p = length (tasks p)))"
proof -
  let ?st = "after_approval example_backlog"
  have wf: "wf_backlog (backlog ?st)"
    by (simp add: after_approval_def after_planning_def wf_example)
  have pl: "plan ?st = Some \<lparr>tasks = concat (map the_tasks example_backlog),
      total_tasks = length (concat (map the_tasks example_backlog))\<rparr>"
    by (simp add: after_approval_def after_planning_def)
  obtain u1 where p: "planning_node ?st empty_world
      = (Inr u1, snd (planning_node ?st empty_world))"
    using planning_node_ok[OF wf, of empty_world] by auto
  obtain u2 where a: "approval_node ?st empty_world
      = (Inr u2, snd (approval_node ?st empty_world))"
    using approval_node_ok[of ?st empty_world] by auto
  obtain u3 where b: "building_node env_down ?st empty_world
      = (Inr u3, snd (building_node env_down ?st empty_world))"
    using building_node_ok[OF pl, of env_down empty_world] by auto
  show ?thesis
    using wf_example p a b
      total_tasks_invariant[of ?st empty_world env_down example_backlog]
    by blast
qed

text \<open>
  C10. On a state that holds a plan, \<^verbatim>\<open>building_node\<close> returns as completed the
  identifiers of the backend tasks of the plan, then those of its frontend tasks, then
  those of its qa tasks, each group in plan order. For a backlog of two or more items
  that have an id and a title, the completed list of the run is not the list of the
  identifiers of the plan's tasks in plan order.
\<close>

theorem completed_grouped_by_assignee:
  "(plan st = Some p
      \<longrightarrow> (\<exists>u w'. building_node e st w = (Inr u, w')
             \<and> upd_completed_tasks u =
                 Some (map task_id (filter (\<lambda>t. assignee t = ''backend'') (tasks p))
                       @ map task_id (filter (\<lambda>t. assignee t = ''frontend'') (tasks p))
                       @ map task_id (filter (\<lambda>t. assignee t = ''qa'') (tasks p)))))
   \<and> (wf_backlog b \<and> 2 \<le> length b
      \<longrightarrow> (\<exists>s p' w'. ainvoke e create_workflow (initial_state b) w = (Inr s, w')
             \<and> plan s = Some p'
             \<and> completed_tasks s \<noteq> map task_id (tasks p')))"
proof -
  have "\<exists>u w'. building_node e st w = (Inr u, w')
             \<and> upd_completed_tasks u =
                 Some (map task_id (filter (\<lambda>t. assignee t = ''backend'') (tasks p))
                       @ map task_id (filter (\<lambda>t. assignee t = ''frontend'') (tasks p))
                       @ map task_id (filter (\<lambda>t. assignee t = ''qa'') (tasks p)))"
    if pl: "plan st = Some p"
    using building_node_ok[OF pl, of e w] by (auto simp: grouped_def ids_of_type_def)
  moreover have "\<exists>s p' w'. ainvoke e create_workflow (initial_state b) w = (Inr s, w')
             \<and> plan s = Some p'
             \<and> completed_tasks s \<noteq> map task_id (tasks p')"
    if wfb: "wf_backlog b" and two: "2 \<le> length b"
  proof -
    obtain w' where "ainvoke e create_workflow (initial_state b) w = (Inr (after_building b), w')"
      using ainvoke_ok[OF wfb] by blast
    moreover have "completed_tasks (after_building b) = grouped (concat (map the_tasks b))"
      by (simp add: after_building_def after_approval_def after_planning_def)
    ultimately show ?thesis
      using after_building_plan[of b] grouped_differs[OF wfb two] by simp
  qed
  ultimately show ?thesis by blast
qed

theorem completed_grouped_by_assignee_witness:
  "plan (after_approval example_backlog)
     = Some \<lparr>tasks = concat (map the_tasks example_backlog), total_tasks = 6\<rparr>
   \<and> wf_backlog example_backlog \<and> 2 \<le> length example_backlog
   \<and> (\<exists>u w'. building_node env_up (after_approval example_backlog) empty_world = (Inr u, w')
         \<and> upd_completed_tasks u =
             Some [''FEAT-001-backend'', ''FEAT-002-backend'', ''FEAT-001-frontend'',
                   ''FEAT-002-frontend'', ''FEAT-001-tests'', ''FEAT-002-tests''])
   \<and> (\<exists>s p' w'. ainvoke env_up create_workflow (initial_state example_backlog) empty_world
                   = (Inr s, w')
         \<and> plan s = Some p'
         \<and> map task_id (tasks p') =
             [''FEAT-001-backend'', ''FEAT-001-frontend'', ''FEAT-001-tests'',
              ''FEAT-002-backend'', ''FEAT-002-frontend'', ''FEAT-002-tests'']
         \<and> completed_tasks s \<noteq> map task_id (tasks p'))"
proof -
  let ?p = "\<lparr>tasks = concat (map the_tasks example_backlog), total_tasks = 6\<rparr>"
  have pl: "plan (after_approval example_backlog) = Some ?p"
    by (simp add: after_approval_def after_planning_def example_lengths)
  have two: "2 \<le> length example_backlog"
    by (simp add: example_backlog_def)
  have f: "map task_id (filter (\<lambda>t. assignee t = ''backend'') (tasks ?p))
           @ map task_id (filter (\<lambda>t. assignee t = ''frontend'') (tasks ?p))
           @ map task_id (filter (\<lambda>t. assignee t = ''qa'') (tasks ?p))
         = [''FEAT-001-backend'', ''FEAT-002-backend'', ''FEAT-001-frontend'',
            ''FEAT-002-frontend'', ''FEAT-001-tests'', ''FEAT-002-tests'']"
    by (simp add: example_tasks)
  note c = completed_grouped_by_assignee[of "after_approval example_backlog" ?p env_up
      empty_world example_backlog]
  from c pl f have b: "\<exists>u w'. building_node env_up (after_approval example_backlog) empty_world
        = (Inr u, w')
      \<and> upd_completed_tasks u =
             Some [''FEAT-001-backend'', ''FEAT-002-backend'', ''FEAT-001-frontend'',
                   ''FEAT-002-frontend'', ''FEAT-001-tests'', ''FEAT-002-tests'']"
    by simp
  from c wf_example two obtain s p' w' where
    r: "ainvoke env_up create_workflow (initial_state example_backlog) empty_world = (Inr s, w')"
    and ps: "plan s = Some p'" and ne: "completed_tasks s \<noteq> map task_id (tasks p')"
    by blast
  obtain w'' where "ainvoke env_up create_workflow (initial_state example_backlog) empty_world
      = (Inr (after_building example_backlog), w'')"
    using ainvoke_ok[OF wf_example] by blast
  with r have "s = after_building example_backlog" by simp
  with ps have ids: "map task_id (tasks p') =
             [''FEAT-001-backend'', ''FEAT-001-frontend'', ''FEAT-001-tests'',
              ''FEAT-002-backend'', ''FEAT-002-frontend'', ''FEAT-002-tests'']"
    using after_building_plan[of example_backlog] example_plan_ids by auto
  have run: "\<exists>s p' w'. ainvoke env_up create_workflow (initial_state example_backlog) empty_world
                   = (Inr s, w')
         \<and> plan s = Some p'
         \<and> map task_id (tasks p') =
             [''FEAT-001-backend'', ''FEAT-001-frontend'', ''FEAT-001-tests'',
              ''FEAT-002-backend'', ''FEAT-002-frontend'', ''FEAT-002-tests'']
         \<and> completed_tasks s \<noteq> map task_id (tasks p')"
    using r ps ids ne by (intro exI conjI)
  show ?thesis
    by (intro conjI) (rule pl wf_example two b run)+
qed

end
